theory Spec2Isabelle
  imports Complex_Main
begin

section \<open>The retirement projection of RetirementSimulator.tsx\<close>

text \<open>
  The component \<^verbatim>\<open>RetirementSimulator\<close> holds two pieces of numerical logic: the closure
  \<^verbatim>\<open>calculateScenario\<close> (lines 45-99), which projects one scenario, and the body of the
  \<^verbatim>\<open>useEffect\<close> hook (lines 101-133), which calls it five times and stores the five
  results in order. Both are pure, so they are embedded as HOL functions.

  Numbers. The two ages are whole years (the data model declares them integers); they
  are \<^typ>\<open>int\<close> here. Every other input is a finite
  amount or percentage and is a \<^typ>\<open>real\<close>: sums, products and powers are the exact ones,
  with no rounding and no overflow. What exact arithmetic cannot hide is division: HOL
  defines \<open>x / 0 = 0\<close>, whereas the program's division by zero yields \<^verbatim>\<open>Infinity\<close>,
  \<^verbatim>\<open>-Infinity\<close> or \<^verbatim>\<open>NaN\<close>. So the result of every division of the source is a
  \<open>jsnum\<close>, whose constructors keep these three values apart from the finite ones.
\<close>

subsection \<open>Data\<close>

record SimulationInputs =
  currentAge :: int
  retirementAge :: int
  currentSavings :: real
  monthlyContribution :: real
  expectedReturn :: real
  inflationRate :: real
  retirementExpenses :: real

text \<open>\<^verbatim>\<open>Partial<SimulationInputs>\<close>: every field may be absent.\<close>

record Modifications =
  modCurrentAge :: "int option"
  modRetirementAge :: "int option"
  modCurrentSavings :: "real option"
  modMonthlyContribution :: "real option"
  modExpectedReturn :: "real option"
  modInflationRate :: "real option"
  modRetirementExpenses :: "real option"

datatype jsnum = Finite real | PosInfinity | NegInfinity | NaN

text \<open>One element of the array \<^verbatim>\<open>data\<close>: \<^verbatim>\<open>{ year, amount, realValue }\<close>.\<close>

record YearPoint =
  year :: int
  amount :: real
  realValue :: jsnum

record ScenarioResult =
  name :: string
  finalAmount :: real
  monthlyIncome :: jsnum
  yearsOfIncome :: jsnum
  data :: "YearPoint list"
  color :: string

subsection \<open>Arithmetic of the program that differs from HOL's\<close>

text \<open>
  \<^verbatim>\<open>a / b\<close> for a finite dividend, which is all the source ever divides. A zero divisor
  gives an infinity of the dividend's sign, or \<^verbatim>\<open>NaN\<close> for \<^verbatim>\<open>0 / 0\<close>; an infinite
  divisor gives zero.
\<close>

fun js_div :: "real \<Rightarrow> jsnum \<Rightarrow> jsnum" where
  "js_div a (Finite b) =
     (if b = 0 then (if a = 0 then NaN else if 0 < a then PosInfinity else NegInfinity)
      else Finite (a / b))"
| "js_div a PosInfinity = Finite 0"
| "js_div a NegInfinity = Finite 0"
| "js_div a NaN = NaN"

text \<open>
  \<^verbatim>\<open>Math.pow(b, n)\<close> for an integer exponent. A negative exponent on base zero is
  \<^verbatim>\<open>Infinity\<close>; \<^verbatim>\<open>Math.pow(0, 0)\<close> is 1, as \<open>0 ^ 0\<close> is in HOL.
\<close>

definition js_pow :: "real \<Rightarrow> int \<Rightarrow> jsnum" where
  "js_pow b n =
     (if 0 \<le> n then Finite (b ^ nat n)
      else if b = 0 then PosInfinity
      else Finite (1 / b ^ nat (- n)))"

subsection \<open>calculateScenario\<close>

text \<open>\<^verbatim>\<open>{ ...inputs, ...modifications }\<close>: a field of the second object, when present, wins.\<close>

definition spread :: "SimulationInputs \<Rightarrow> Modifications \<Rightarrow> SimulationInputs" where
  "spread inputs modifications =
     \<lparr> currentAge = (case modCurrentAge modifications of None \<Rightarrow> currentAge inputs | Some v \<Rightarrow> v),
       retirementAge = (case modRetirementAge modifications of None \<Rightarrow> retirementAge inputs | Some v \<Rightarrow> v),
       currentSavings = (case modCurrentSavings modifications of None \<Rightarrow> currentSavings inputs | Some v \<Rightarrow> v),
       monthlyContribution =
         (case modMonthlyContribution modifications of None \<Rightarrow> monthlyContribution inputs | Some v \<Rightarrow> v),
       expectedReturn = (case modExpectedReturn modifications of None \<Rightarrow> expectedReturn inputs | Some v \<Rightarrow> v),
       inflationRate = (case modInflationRate modifications of None \<Rightarrow> inflationRate inputs | Some v \<Rightarrow> v),
       retirementExpenses =
         (case modRetirementExpenses modifications of None \<Rightarrow> retirementExpenses inputs | Some v \<Rightarrow> v) \<rparr>"

text \<open>
  The inner loop, lines 73-75:
  \<^verbatim>\<open>for (let month = 0; month < 12 && year < yearsToRetirement; month++)
    amount = amount * (1 + monthlyReturn) + monthlyContribution;\<close>
  The arguments are the loop counter, the variables the loop reads, and the amount it
  updates; the result is the amount when the loop is left. The product and the sum of the
  step are the exact ones, where the program rounds each to a double: what is proved of
  the amounts below is their place in the computation and their order, not the digits
  that rounding would change.
\<close>

function month_loop :: "nat \<Rightarrow> nat \<Rightarrow> int \<Rightarrow> real \<Rightarrow> real \<Rightarrow> real \<Rightarrow> real" where
  "month_loop month yr yearsToRetirement monthlyReturn contribution amt =
     (if month < 12 \<and> int yr < yearsToRetirement
      then month_loop (month + 1) yr yearsToRetirement monthlyReturn contribution
             (amt * (1 + monthlyReturn) + contribution)
      else amt)"
  by pat_completeness auto
termination
  by (relation "measure (\<lambda>(month, yr, ytr, mr, c, a). 12 - month)") auto

declare month_loop.simps [simp del]

text \<open>
  The outer loop, lines 69-79:
  \<^verbatim>\<open>for (let year = 0; year <= yearsToRetirement; year++) {
    const currentYear = currentAge + year;
    (inner loop)
    const realValue = amount / Math.pow(1 + inflationRate / 100, year);
    data.push({ year: currentYear, amount, realValue });
  }\<close>
  The state is the pair of \<^verbatim>\<open>amount\<close> and \<^verbatim>\<open>data\<close>; \<^verbatim>\<open>push\<close> appends at the end.
\<close>

function year_loop ::
  "int \<Rightarrow> int \<Rightarrow> real \<Rightarrow> real \<Rightarrow> real \<Rightarrow> nat \<Rightarrow> real \<Rightarrow> YearPoint list \<Rightarrow> real \<times> YearPoint list"
where
  "year_loop age yearsToRetirement monthlyReturn contribution inflation yr amt dat =
     (if int yr \<le> yearsToRetirement
      then
        (let currentYear = age + int yr;
             amt' = month_loop 0 yr yearsToRetirement monthlyReturn contribution amt;
             rv = js_div amt' (js_pow (1 + inflation / 100) (int yr))
         in year_loop age yearsToRetirement monthlyReturn contribution inflation (yr + 1) amt'
              (dat @ [\<lparr> year = currentYear, amount = amt', realValue = rv \<rparr>]))
      else (amt, dat))"
  by pat_completeness auto
termination
  by (relation "measure (\<lambda>(age, ytr, mr, c, i, yr, a, d). nat (ytr + 1 - int yr))") auto

declare year_loop.simps [simp del]

definition calculateScenario ::
  "SimulationInputs \<Rightarrow> string \<Rightarrow> string \<Rightarrow> Modifications \<Rightarrow> ScenarioResult"
where
  "calculateScenario inputs nm col modifications =
     (let modifiedInputs = spread inputs modifications;
          yearsToRetirement = retirementAge modifiedInputs - currentAge modifiedInputs;
          monthlyReturn = expectedReturn modifiedInputs / 100 / 12;
          (amt, dat) = year_loop (currentAge modifiedInputs) yearsToRetirement monthlyReturn
                         (monthlyContribution modifiedInputs) (inflationRate modifiedInputs)
                         0 (currentSavings modifiedInputs) [];
          final = amt;
          withdrawalRate = 4 / 100;
          income = (final * withdrawalRate) / 12;
          realMonthlyIncome =
            js_div income (js_pow (1 + inflationRate modifiedInputs / 100) yearsToRetirement);
          years = js_div final (Finite (retirementExpenses modifiedInputs * 12))
      in \<lparr> name = nm, finalAmount = final, monthlyIncome = realMonthlyIncome,
           yearsOfIncome = years, data = dat, color = col \<rparr>)"

subsection \<open>The scenario set\<close>

text \<open>The default argument \<^verbatim>\<open>modifications = {}\<close>: no field present.\<close>

definition noModifications :: Modifications where
  "noModifications =
     \<lparr> modCurrentAge = None, modRetirementAge = None, modCurrentSavings = None,
       modMonthlyContribution = None, modExpectedReturn = None, modInflationRate = None,
       modRetirementExpenses = None \<rparr>"

text \<open>
  The body of the effect, lines 102-132: five calls on the same \<^verbatim>\<open>inputs\<close>, and the
  array handed to \<^verbatim>\<open>setScenarios\<close>.
\<close>

definition buildScenarios :: "SimulationInputs \<Rightarrow> ScenarioResult list" where
  "buildScenarios inputs =
     (let baseScenario = calculateScenario inputs ''Base Case'' ''#0891b2'' noModifications;
          inflationSpike = calculateScenario inputs ''Inflation Spike (5%)'' ''#dc2626''
                             (noModifications \<lparr> modInflationRate := Some 5 \<rparr>);
          earlyRetirement = calculateScenario inputs ''Early Retirement (60)'' ''#7c3aed''
                              (noModifications \<lparr> modRetirementAge := Some 60 \<rparr>);
          marketDownturn = calculateScenario inputs ''Market Downturn (4% return)'' ''#ea580c''
                             (noModifications \<lparr> modExpectedReturn := Some 4 \<rparr>);
          optimistic = calculateScenario inputs ''Optimistic (10% return)'' ''#059669''
                         (noModifications \<lparr> modExpectedReturn := Some 10 \<rparr>)
      in [baseScenario, inflationSpike, earlyRetirement, marketDownturn, optimistic])"

subsection \<open>The recurrence of the specification\<close>

text \<open>
  \<open>monthly_steps n r c a\<close> is the balance after \<open>n\<close> monthly steps from \<open>a\<close>, each step
  being \<open>amount * (1 + r) + c\<close>: the month's growth first, then the contribution, which
  earns nothing in the month it is paid in.
\<close>

fun monthly_steps :: "nat \<Rightarrow> real \<Rightarrow> real \<Rightarrow> real \<Rightarrow> real" where
  "monthly_steps 0 r c a = a"
| "monthly_steps (Suc n) r c a = monthly_steps n r c (a * (1 + r) + c)"

text \<open>
  The point that the outer loop, entered at year index \<open>yr\<close> with amount \<open>a\<close>, records at
  year index \<open>k\<close>: a year before the last one adds twelve steps, the last one adds none.
\<close>

definition recorded ::
  "int \<Rightarrow> int \<Rightarrow> real \<Rightarrow> real \<Rightarrow> real \<Rightarrow> nat \<Rightarrow> real \<Rightarrow> nat \<Rightarrow> YearPoint"
where
  "recorded age ytr r c i yr a k =
     \<lparr> year = age + int k,
       amount = monthly_steps (12 * (min (k + 1) (nat ytr) - yr)) r c a,
       realValue = js_div (monthly_steps (12 * (min (k + 1) (nat ytr) - yr)) r c a)
                     (js_pow (1 + i / 100) (int k)) \<rparr>"

subsection \<open>Concrete inputs\<close>

text \<open>The seed scenario of the specification: one year at 12% a year, nothing paid in.\<close>

definition seed_inputs :: SimulationInputs where
  "seed_inputs =
     \<lparr> currentAge = 30, retirementAge = 31, currentSavings = 1000, monthlyContribution = 0,
       expectedReturn = 12, inflationRate = 0, retirementExpenses = 100 \<rparr>"

text \<open>A saver of 65 whose retirement age is 60.\<close>

definition late_inputs :: SimulationInputs where
  "late_inputs =
     \<lparr> currentAge = 65, retirementAge = 60, currentSavings = 50000, monthlyContribution = 2000,
       expectedReturn = 7, inflationRate = 3, retirementExpenses = 5000 \<rparr>"

text \<open>Two years without return, at 25% inflation and with no expenses in retirement.\<close>

definition plain_inputs :: SimulationInputs where
  "plain_inputs =
     \<lparr> currentAge = 40, retirementAge = 42, currentSavings = 1000, monthlyContribution = 100,
       expectedReturn = 0, inflationRate = 25, retirementExpenses = 0 \<rparr>"

text \<open>Two years of contributions at 12% a year.\<close>

definition growing_inputs :: SimulationInputs where
  "growing_inputs =
     \<lparr> currentAge = 30, retirementAge = 32, currentSavings = 1000, monthlyContribution = 100,
       expectedReturn = 12, inflationRate = 3, retirementExpenses = 5000 \<rparr>"

text \<open>Nothing saved and nothing paid in, at 7% a year.\<close>

definition idle_inputs :: SimulationInputs where
  "idle_inputs =
     \<lparr> currentAge = 30, retirementAge = 31, currentSavings = 0, monthlyContribution = 0,
       expectedReturn = 7, inflationRate = 3, retirementExpenses = 5000 \<rparr>"

section \<open>The loops in closed form\<close>

lemma monthly_steps_add:
  "monthly_steps (m + n) r c a = monthly_steps n r c (monthly_steps m r c a)"
  by (induction m arbitrary: a) simp_all

lemma monthly_steps_Suc_right:
  "monthly_steps (Suc n) r c a = monthly_steps n r c a * (1 + r) + c"
  using monthly_steps_add [of n 1 r c a] by simp

lemma month_loop_steps:
  "month \<le> 12 \<Longrightarrow>
   month_loop month yr ytr r c a =
     (if int yr < ytr then monthly_steps (12 - month) r c a else a)"
proof (induction month yr ytr r c a rule: month_loop.induct)
  case (1 month yr ytr r c a)
  show ?case
  proof (cases "month < 12 \<and> int yr < ytr")
    case True
    then have "12 - month = Suc (12 - (month + 1))" by arith
    with True 1 show ?thesis
      by (subst month_loop.simps) simp
  next
    case False
    with 1 show ?thesis
      by (subst month_loop.simps) auto
  qed
qed

lemma year_loop_closed:
  "year_loop age ytr r c i yr a dat =
     (monthly_steps (12 * (nat ytr - yr)) r c a,
      dat @ map (recorded age ytr r c i yr a) [yr..<nat (ytr + 1)])"
proof (induction age ytr r c i yr a dat rule: year_loop.induct)
  case (1 age ytr r c i yr a dat)
  show ?case
  proof (cases "int yr \<le> ytr")
    case False
    then show ?thesis
      by (subst year_loop.simps) simp
  next
    case True
    define a' where "a' = month_loop 0 yr ytr r c a"
    have a': "a' = (if int yr < ytr then monthly_steps 12 r c a else a)"
      unfolding a'_def by (simp add: month_loop_steps)
    have upt: "[yr..<nat (ytr + 1)] = yr # [yr + 1..<nat (ytr + 1)]"
      using True by (simp add: upt_conv_Cons)
    have fin: "monthly_steps (12 * (nat ytr - (yr + 1))) r c a' = monthly_steps (12 * (nat ytr - yr)) r c a"
    proof (cases "int yr < ytr")
      case True
      then have "12 * (nat ytr - yr) = 12 + 12 * (nat ytr - (yr + 1))" by simp
      then show ?thesis using True a' by (simp only: monthly_steps_add if_True)
    next
      case False
      with True have "nat ytr - yr = 0" by simp
      with False a' show ?thesis by simp
    qed
    have hd: "recorded age ytr r c i yr a yr =
              \<lparr> year = age + int yr, amount = a', realValue = js_div a' (js_pow (1 + i / 100) (int yr)) \<rparr>"
    proof (cases "int yr < ytr")
      case True
      then have "min (yr + 1) (nat ytr) - yr = 1" by simp
      then show ?thesis using True a' by (simp add: recorded_def)
    next
      case False
      with True have "min (yr + 1) (nat ytr) - yr = 0" by simp
      then show ?thesis using False a' by (simp add: recorded_def)
    qed
    have tl: "recorded age ytr r c i (yr + 1) a' k = recorded age ytr r c i yr a k"
      if "k \<in> set [yr + 1..<nat (ytr + 1)]" for k
    proof -
      from that have k: "yr < k" "k \<le> nat ytr" by auto
      then have lt: "int yr < ytr" by linarith
      from k have "12 * (min (k + 1) (nat ytr) - yr) = 12 + 12 * (min (k + 1) (nat ytr) - (yr + 1))"
        by simp
      then show ?thesis using lt a'
        by (simp only: recorded_def monthly_steps_add if_True)
    qed
    have "year_loop age ytr r c i yr a dat =
          year_loop age ytr r c i (yr + 1) a'
            (dat @ [\<lparr> year = age + int yr, amount = a', realValue = js_div a' (js_pow (1 + i / 100) (int yr)) \<rparr>])"
      using True by (subst year_loop.simps) (simp add: a'_def Let_def)
    also have "\<dots> = (monthly_steps (12 * (nat ytr - (yr + 1))) r c a',
        (dat @ [\<lparr> year = age + int yr, amount = a', realValue = js_div a' (js_pow (1 + i / 100) (int yr)) \<rparr>])
          @ map (recorded age ytr r c i (yr + 1) a') [yr + 1..<nat (ytr + 1)])"
      using 1 [OF True refl, of a' "js_div a' (js_pow (1 + i / 100) (int yr))"] by (simp add: a'_def)
    also have "\<dots> = (monthly_steps (12 * (nat ytr - yr)) r c a,
        dat @ map (recorded age ytr r c i yr a) [yr..<nat (ytr + 1)])"
      using tl by (simp only: fin upt hd [symmetric] list.map append_assoc append_Cons append_Nil
                     map_cong [OF refl tl])
    finally show ?thesis .
  qed
qed


lemma calculateScenario_closed:
  assumes "m = spread inputs modifications"
  shows "calculateScenario inputs nm col modifications =
     \<lparr> name = nm,
       finalAmount = monthly_steps (12 * nat (retirementAge m - currentAge m))
                       (expectedReturn m / 100 / 12) (monthlyContribution m) (currentSavings m),
       monthlyIncome =
         js_div (monthly_steps (12 * nat (retirementAge m - currentAge m))
                   (expectedReturn m / 100 / 12) (monthlyContribution m) (currentSavings m) * (4 / 100) / 12)
           (js_pow (1 + inflationRate m / 100) (retirementAge m - currentAge m)),
       yearsOfIncome =
         js_div (monthly_steps (12 * nat (retirementAge m - currentAge m))
                   (expectedReturn m / 100 / 12) (monthlyContribution m) (currentSavings m))
           (Finite (retirementExpenses m * 12)),
       data = map (recorded (currentAge m) (retirementAge m - currentAge m)
                     (expectedReturn m / 100 / 12) (monthlyContribution m) (inflationRate m)
                     0 (currentSavings m))
                [0..<nat (retirementAge m - currentAge m + 1)],
       color = col \<rparr>"
  unfolding calculateScenario_def Let_def assms [symmetric] year_loop_closed
  by simp

lemma data_length:
  assumes "m = spread inputs modifications"
  shows "length (data (calculateScenario inputs nm col modifications)) =
           nat (retirementAge m - currentAge m + 1)"
  by (simp add: calculateScenario_closed [OF assms])

lemma data_nth:
  assumes "m = spread inputs modifications"
    and "k < nat (retirementAge m - currentAge m + 1)"
  shows "data (calculateScenario inputs nm col modifications) ! k =
           recorded (currentAge m) (retirementAge m - currentAge m)
             (expectedReturn m / 100 / 12) (monthlyContribution m) (inflationRate m)
             0 (currentSavings m) k"
  using assms(2) by (simp add: calculateScenario_closed [OF assms(1)])

section \<open>The trajectory\<close>

text \<open>
  C4. When the horizon \<open>Y = retirementAge - currentAge\<close> of the effective inputs is not
  negative, the trajectory has exactly \<open>Y + 1\<close> points, and their ages are
  \<open>currentAge, currentAge + 1, \<dots>, retirementAge\<close>, strictly increasing.
\<close>

theorem trajectory_ages:
  assumes "m = spread inputs modifications"
    and "0 \<le> retirementAge m - currentAge m"
  shows "length (data (calculateScenario inputs nm col modifications)) =
           nat (retirementAge m - currentAge m) + 1
       \<and> map year (data (calculateScenario inputs nm col modifications)) =
           [currentAge m..retirementAge m]
       \<and> sorted_wrt (<) (map year (data (calculateScenario inputs nm col modifications)))"
proof -
  let ?Y = "retirementAge m - currentAge m"
  have len: "length (data (calculateScenario inputs nm col modifications)) = nat ?Y + 1"
    using assms(2) by (simp add: data_length [OF assms(1)] nat_add_distrib)
  have ages: "map year (data (calculateScenario inputs nm col modifications)) =
              [currentAge m..retirementAge m]"
  proof (rule nth_equalityI)
    show "length (map year (data (calculateScenario inputs nm col modifications))) =
          length [currentAge m..retirementAge m]"
      using assms(2) len by simp
  next
    fix k assume "k < length (map year (data (calculateScenario inputs nm col modifications)))"
    then have k: "k < nat (?Y + 1)" by (simp add: data_length [OF assms(1)])
    then have "int k \<le> ?Y" by linarith
    then show "map year (data (calculateScenario inputs nm col modifications)) ! k =
          [currentAge m..retirementAge m] ! k"
      using k by (simp add: data_length [OF assms(1)] data_nth [OF assms(1) k] recorded_def)
  qed
  have "sorted_wrt (<) [currentAge m..retirementAge m]"
    by (rule sorted_wrt_upto)
  with len ages show ?thesis by simp
qed

theorem trajectory_ages_witness:
  "0 \<le> retirementAge seed_inputs - currentAge seed_inputs
   \<and> length (data (calculateScenario seed_inputs ''Base Case'' ''#0891b2'' noModifications)) = 2
   \<and> map year (data (calculateScenario seed_inputs ''Base Case'' ''#0891b2'' noModifications)) = [30, 31]"
proof -
  have m: "seed_inputs = spread seed_inputs noModifications"
    by (simp add: spread_def noModifications_def)
  have h: "0 \<le> retirementAge seed_inputs - currentAge seed_inputs"
    by (simp add: seed_inputs_def)
  from trajectory_ages [OF m h] show ?thesis
    by (simp add: seed_inputs_def)
qed

section \<open>A horizon of negative length\<close>

text \<open>
  C1, as stated: with a negative horizon the trajectory is a single point at \<open>currentAge\<close>
  whose amount is \<open>currentSavings\<close>. It is not: the guard \<^verbatim>\<open>year <= yearsToRetirement\<close>
  of the outer loop fails at \<open>year = 0\<close>, nothing is pushed, and the trajectory is empty.
  Here for a saver of 65 whose retirement age is 60.
\<close>

theorem negative_horizon_counterexample:
  "retirementAge (spread late_inputs noModifications) - currentAge (spread late_inputs noModifications) < 0
   \<and> data (calculateScenario late_inputs ''Base Case'' ''#0891b2'' noModifications) = []
   \<and> length (data (calculateScenario late_inputs ''Base Case'' ''#0891b2'' noModifications)) \<noteq> 1"
  by (simp add: calculateScenario_def spread_def noModifications_def late_inputs_def year_loop.simps)

text \<open>
  C1, amended: with a negative horizon \<open>calculateScenario\<close> returns a result (it has no
  failing branch) whose trajectory is empty, whose final amount is \<open>currentSavings\<close>, no
  growth having been simulated, and whose years of income are the program's quotient of
  that amount by twelve months of expenses.
\<close>

theorem negative_horizon:
  assumes "m = spread inputs modifications"
    and "retirementAge m - currentAge m < 0"
  shows "data (calculateScenario inputs nm col modifications) = []
       \<and> finalAmount (calculateScenario inputs nm col modifications) = currentSavings m
       \<and> yearsOfIncome (calculateScenario inputs nm col modifications) =
           js_div (currentSavings m) (Finite (retirementExpenses m * 12))"
  using assms(2) by (simp add: calculateScenario_closed [OF assms(1)])

theorem negative_horizon_witness:
  "retirementAge late_inputs - currentAge late_inputs < 0
   \<and> data (calculateScenario late_inputs ''Base Case'' ''#0891b2'' noModifications) = []
   \<and> finalAmount (calculateScenario late_inputs ''Base Case'' ''#0891b2'' noModifications) = 50000
   \<and> yearsOfIncome (calculateScenario late_inputs ''Base Case'' ''#0891b2'' noModifications) = Finite (5 / 6)"
proof -
  have m: "late_inputs = spread late_inputs noModifications"
    by (simp add: spread_def noModifications_def)
  have h: "retirementAge late_inputs - currentAge late_inputs < 0"
    by (simp add: late_inputs_def)
  from negative_horizon [OF m h] show ?thesis
    by (simp add: late_inputs_def)
qed

section \<open>Monthly compounding\<close>

text \<open>
  C2. With a horizon \<open>Y \<ge> 0\<close> the monthly rate is \<open>expectedReturn / 100 / 12\<close>, and the
  amount recorded at year index \<open>k\<close> is the previous one (the starting savings at index 0)
  after exactly twelve monthly steps when \<open>k < Y\<close>, and after none when \<open>k = Y\<close>: in all,
  \<open>12 * min (k + 1) Y\<close> steps from the starting savings. Each step multiplies the balance
  by \<open>1 + monthlyRate\<close> and then adds the contribution, which is not grown in that month.
\<close>

theorem monthly_compounding:
  assumes "m = spread inputs modifications"
    and "0 \<le> retirementAge m - currentAge m"
  shows "(\<forall>k. int k \<le> retirementAge m - currentAge m \<longrightarrow>
            amount (data (calculateScenario inputs nm col modifications) ! k) =
              monthly_steps (if int k < retirementAge m - currentAge m then 12 else 0)
                (expectedReturn m / 100 / 12) (monthlyContribution m)
                (if k = 0 then currentSavings m
                 else amount (data (calculateScenario inputs nm col modifications) ! (k - 1))))
       \<and> (\<forall>k. int k \<le> retirementAge m - currentAge m \<longrightarrow>
            amount (data (calculateScenario inputs nm col modifications) ! k) =
              monthly_steps (12 * min (k + 1) (nat (retirementAge m - currentAge m)))
                (expectedReturn m / 100 / 12) (monthlyContribution m) (currentSavings m))
       \<and> (\<forall>n a. monthly_steps (Suc n) (expectedReturn m / 100 / 12) (monthlyContribution m) a =
            monthly_steps n (expectedReturn m / 100 / 12) (monthlyContribution m) a
              * (1 + expectedReturn m / 100 / 12) + monthlyContribution m)"
proof -
  let ?Y = "retirementAge m - currentAge m"
  let ?r = "expectedReturn m / 100 / 12"
  let ?d = "data (calculateScenario inputs nm col modifications)"
  have closed: "amount (?d ! k) = monthly_steps (12 * min (k + 1) (nat ?Y)) ?r (monthlyContribution m) (currentSavings m)"
    if "int k \<le> ?Y" for k
  proof -
    from that have "k < nat (?Y + 1)" by linarith
    then show ?thesis by (simp add: data_nth [OF assms(1)] recorded_def)
  qed
  have step: "amount (?d ! k) =
      monthly_steps (if int k < ?Y then 12 else 0) ?r (monthlyContribution m)
        (if k = 0 then currentSavings m else amount (?d ! (k - 1)))"
    if k: "int k \<le> ?Y" for k
  proof (cases k)
    case 0
    then show ?thesis using closed [OF k] assms(2) by (cases "0 < ?Y") simp_all
  next
    case (Suc j)
    then have j: "int j \<le> ?Y" "int j < ?Y" using k by simp_all
    have prev: "amount (?d ! j) = monthly_steps (12 * (j + 1)) ?r (monthlyContribution m) (currentSavings m)"
    proof -
      from j(2) have "min (j + 1) (nat ?Y) = j + 1" by linarith
      with closed [OF j(1)] show ?thesis by simp
    qed
    show ?thesis
    proof (cases "int k < ?Y")
      case True
      then have "min (k + 1) (nat ?Y) = k + 1" by simp
      then have "amount (?d ! k) = monthly_steps (12 * (j + 1) + 12) ?r (monthlyContribution m) (currentSavings m)"
        using closed [OF k] Suc by simp
      then show ?thesis using True Suc prev by (simp only: monthly_steps_add) simp
    next
      case False
      with k have "nat ?Y = k" by simp
      then have "min (k + 1) (nat ?Y) = j + 1" using Suc by simp
      then show ?thesis using closed [OF k] False Suc prev by simp
    qed
  qed
  show ?thesis
  proof (intro conjI allI impI)
    fix k assume "int k \<le> ?Y"
    then show "amount (?d ! k) =
      monthly_steps (if int k < ?Y then 12 else 0) ?r (monthlyContribution m)
        (if k = 0 then currentSavings m else amount (?d ! (k - 1)))"
      by (rule step)
  next
    fix k assume "int k \<le> ?Y"
    then show "amount (?d ! k) =
      monthly_steps (12 * min (k + 1) (nat ?Y)) ?r (monthlyContribution m) (currentSavings m)"
      by (rule closed)
  next
    fix n a
    show "monthly_steps (Suc n) ?r (monthlyContribution m) a =
          monthly_steps n ?r (monthlyContribution m) a * (1 + ?r) + monthlyContribution m"
      by (rule monthly_steps_Suc_right)
  qed
qed

theorem monthly_compounding_witness:
  "0 \<le> retirementAge seed_inputs - currentAge seed_inputs
   \<and> expectedReturn seed_inputs / 100 / 12 = 1 / 100
   \<and> amount (data (calculateScenario seed_inputs ''Base Case'' ''#0891b2'' noModifications) ! 0) =
       monthly_steps 12 (1 / 100) 0 1000
   \<and> amount (data (calculateScenario seed_inputs ''Base Case'' ''#0891b2'' noModifications) ! 1) =
       amount (data (calculateScenario seed_inputs ''Base Case'' ''#0891b2'' noModifications) ! 0)
   \<and> monthly_steps 12 (1 / 100) 0 1000 = 1126825030131969720661201 / 1000000000000000000000"
proof -
  have m: "seed_inputs = spread seed_inputs noModifications"
    by (simp add: spread_def noModifications_def)
  have h: "0 \<le> retirementAge seed_inputs - currentAge seed_inputs"
    by (simp add: seed_inputs_def)
  have v: "monthly_steps 12 (1 / 100) 0 1000 = 1126825030131969720661201 / 1000000000000000000000"
    by (simp add: eval_nat_numeral)
  from monthly_compounding [OF m h, of "''Base Case''" "''#0891b2''"] v show ?thesis
    by (simp add: seed_inputs_def)
qed

section \<open>Powers, and the final amount\<close>

lemma js_pow_nat: "js_pow b (int k) = Finite (b ^ k)"
  by (simp add: js_pow_def)

lemma js_pow_powi: "b \<noteq> 0 \<Longrightarrow> js_pow b n = Finite (b powi n)"
  by (simp add: js_pow_def power_int_def power_one_over inverse_eq_divide)

lemma final_amount:
  assumes "m = spread inputs modifications"
  shows "finalAmount (calculateScenario inputs nm col modifications) =
           monthly_steps (12 * nat (retirementAge m - currentAge m))
             (expectedReturn m / 100 / 12) (monthlyContribution m) (currentSavings m)"
  by (simp add: calculateScenario_closed [OF assms])

text \<open>
  C5. With a horizon \<open>Y \<ge> 1\<close> the trajectory has at least two points, the last two carry
  the same amount, and the final amount is the amount of the last point.
\<close>

theorem terminal_duplicate:
  assumes "m = spread inputs modifications"
    and "1 \<le> retirementAge m - currentAge m"
  shows "2 \<le> length (data (calculateScenario inputs nm col modifications))
       \<and> amount (last (data (calculateScenario inputs nm col modifications))) =
           amount (last (butlast (data (calculateScenario inputs nm col modifications))))
       \<and> finalAmount (calculateScenario inputs nm col modifications) =
           amount (last (data (calculateScenario inputs nm col modifications)))"
proof -
  let ?Y = "retirementAge m - currentAge m"
  let ?d = "data (calculateScenario inputs nm col modifications)"
  have len: "length ?d = nat ?Y + 1"
    using assms(2) by (simp add: data_length [OF assms(1)] nat_add_distrib)
  from assms(2) have Y: "1 \<le> nat ?Y" by simp
  from len have ne1: "?d \<noteq> []" by auto
  have ne2: "butlast ?d \<noteq> []"
  proof
    assume "butlast ?d = []"
    then have "length (butlast ?d) = 0" by simp
    with len Y show False by simp
  qed
  note ne = ne1 ne2
  have "last ?d = ?d ! nat ?Y"
    using ne(1) len by (simp add: last_conv_nth)
  moreover have "nat ?Y < nat (?Y + 1)" using assms(2) by simp
  ultimately have l: "amount (last ?d) =
      monthly_steps (12 * nat ?Y) (expectedReturn m / 100 / 12) (monthlyContribution m) (currentSavings m)"
    by (simp add: data_nth [OF assms(1)] recorded_def)
  have "last (butlast ?d) = ?d ! (nat ?Y - 1)"
    using ne(2) len Y by (simp add: last_conv_nth nth_butlast)
  moreover have "nat ?Y - 1 < nat (?Y + 1)" using assms(2) by simp
  moreover have "min (nat ?Y - 1 + 1) (nat ?Y) = nat ?Y" using Y by simp
  ultimately have b: "amount (last (butlast ?d)) =
      monthly_steps (12 * nat ?Y) (expectedReturn m / 100 / 12) (monthlyContribution m) (currentSavings m)"
    by (simp add: data_nth [OF assms(1)] recorded_def)
  from len Y l b final_amount [OF assms(1)] show ?thesis by simp
qed

theorem terminal_duplicate_witness:
  "1 \<le> retirementAge seed_inputs - currentAge seed_inputs
   \<and> 2 \<le> length (data (calculateScenario seed_inputs ''Base Case'' ''#0891b2'' noModifications))
   \<and> amount (last (data (calculateScenario seed_inputs ''Base Case'' ''#0891b2'' noModifications))) =
       amount (last (butlast (data (calculateScenario seed_inputs ''Base Case'' ''#0891b2'' noModifications))))
   \<and> finalAmount (calculateScenario seed_inputs ''Base Case'' ''#0891b2'' noModifications) =
       amount (last (data (calculateScenario seed_inputs ''Base Case'' ''#0891b2'' noModifications)))"
proof -
  have m: "seed_inputs = spread seed_inputs noModifications"
    by (simp add: spread_def noModifications_def)
  have h: "1 \<le> retirementAge seed_inputs - currentAge seed_inputs"
    by (simp add: seed_inputs_def)
  from terminal_duplicate [OF m h] h show ?thesis
    by simp
qed

section \<open>Discounting to real value\<close>

text \<open>
  C6. The point at index \<open>k\<close> of the trajectory is the one for age \<open>currentAge + k\<close>, and
  its real value is the program's quotient of its amount by \<open>(1 + inflationRate / 100) ^ k\<close>.
  Unless the inflation rate is -100, that is the real number
  \<open>amount / (1 + inflationRate / 100) ^ k\<close>; and at index 0 it is the amount itself.
\<close>

theorem real_value_discount:
  assumes "m = spread inputs modifications"
  shows "(\<forall>k < length (data (calculateScenario inputs nm col modifications)).
            year (data (calculateScenario inputs nm col modifications) ! k) = currentAge m + int k
          \<and> realValue (data (calculateScenario inputs nm col modifications) ! k) =
              js_div (amount (data (calculateScenario inputs nm col modifications) ! k))
                (Finite ((1 + inflationRate m / 100) ^ k)))
       \<and> (1 + inflationRate m / 100 \<noteq> 0 \<longrightarrow>
           (\<forall>k < length (data (calculateScenario inputs nm col modifications)).
              realValue (data (calculateScenario inputs nm col modifications) ! k) =
                Finite (amount (data (calculateScenario inputs nm col modifications) ! k)
                          / (1 + inflationRate m / 100) ^ k)))
       \<and> (data (calculateScenario inputs nm col modifications) \<noteq> [] \<longrightarrow>
            realValue (data (calculateScenario inputs nm col modifications) ! 0) =
              Finite (amount (data (calculateScenario inputs nm col modifications) ! 0)))"
proof -
  let ?d = "data (calculateScenario inputs nm col modifications)"
  let ?b = "1 + inflationRate m / 100"
  have pt: "year (?d ! k) = currentAge m + int k
          \<and> realValue (?d ! k) = js_div (amount (?d ! k)) (Finite (?b ^ k))"
    if "k < length ?d" for k
  proof -
    from that have "k < nat (retirementAge m - currentAge m + 1)"
      by (simp add: data_length [OF assms])
    then show ?thesis
      by (simp add: data_nth [OF assms] recorded_def js_pow_nat)
  qed
  have fin: "realValue (?d ! k) = Finite (amount (?d ! k) / ?b ^ k)"
    if "k < length ?d" and "?b \<noteq> 0" for k
    using pt [OF that(1)] that(2) by simp
  have zero: "realValue (?d ! 0) = Finite (amount (?d ! 0))" if "?d \<noteq> []"
  proof -
    from that have "0 < length ?d" by simp
    from pt [OF this] show ?thesis by simp
  qed
  from pt fin zero show ?thesis by blast
qed

theorem real_value_discount_witness:
  "1 + inflationRate plain_inputs / 100 \<noteq> 0
   \<and> data (calculateScenario plain_inputs ''Base Case'' ''#0891b2'' noModifications) \<noteq> []
   \<and> realValue (data (calculateScenario plain_inputs ''Base Case'' ''#0891b2'' noModifications) ! 0) =
       Finite (amount (data (calculateScenario plain_inputs ''Base Case'' ''#0891b2'' noModifications) ! 0))
   \<and> year (data (calculateScenario plain_inputs ''Base Case'' ''#0891b2'' noModifications) ! 2) = 42
   \<and> realValue (data (calculateScenario plain_inputs ''Base Case'' ''#0891b2'' noModifications) ! 2) =
       Finite (amount (data (calculateScenario plain_inputs ''Base Case'' ''#0891b2'' noModifications) ! 2)
                 / (25 / 16))"
proof -
  have m: "plain_inputs = spread plain_inputs noModifications"
    by (simp add: spread_def noModifications_def)
  have len: "length (data (calculateScenario plain_inputs ''Base Case'' ''#0891b2'' noModifications)) = 3"
    unfolding data_length [OF m] by (simp add: plain_inputs_def)
  have b: "1 + inflationRate plain_inputs / 100 = 5 / 4"
    by (simp add: plain_inputs_def)
  have p: "(5 / 4 :: real) ^ 2 = 25 / 16"
    by (simp add: power2_eq_square)
  from len have ne: "data (calculateScenario plain_inputs ''Base Case'' ''#0891b2'' noModifications) \<noteq> []"
    by auto
  note t = real_value_discount [OF m, of "''Base Case''" "''#0891b2''"]
  have two: "2 < length (data (calculateScenario plain_inputs ''Base Case'' ''#0891b2'' noModifications))"
    using len by simp
  from t [THEN conjunct1, rule_format, OF two] t [THEN conjunct2, THEN conjunct2] ne b p
  show ?thesis
    by (simp add: plain_inputs_def)
qed

section \<open>Summary figures\<close>

text \<open>
  C7. The monthly income is the program's quotient of \<open>finalAmount * 0.04 / 12\<close> by
  \<^verbatim>\<open>Math.pow(1 + inflationRate / 100, yearsToRetirement)\<close>, for every input. Unless the
  inflation rate is -100 this is the real number
  \<open>(finalAmount * 0.04 / 12) / (1 + inflationRate / 100) powi yearsToRetirement\<close>, the
  power being the one with an integer exponent, negative horizons included.
\<close>

theorem sustainable_income:
  assumes "m = spread inputs modifications"
  shows "monthlyIncome (calculateScenario inputs nm col modifications) =
           js_div (finalAmount (calculateScenario inputs nm col modifications) * 0.04 / 12)
             (js_pow (1 + inflationRate m / 100) (retirementAge m - currentAge m))
       \<and> (1 + inflationRate m / 100 \<noteq> 0 \<longrightarrow>
            monthlyIncome (calculateScenario inputs nm col modifications) =
              Finite ((finalAmount (calculateScenario inputs nm col modifications) * 0.04 / 12)
                        / (1 + inflationRate m / 100) powi (retirementAge m - currentAge m)))"
proof -
  have js: "monthlyIncome (calculateScenario inputs nm col modifications) =
           js_div (finalAmount (calculateScenario inputs nm col modifications) * 0.04 / 12)
             (js_pow (1 + inflationRate m / 100) (retirementAge m - currentAge m))"
    by (simp add: calculateScenario_closed [OF assms])
  have "(1 + inflationRate m / 100) powi (retirementAge m - currentAge m) \<noteq> 0"
    if "1 + inflationRate m / 100 \<noteq> 0"
    using that by simp
  then show ?thesis
    using js by (simp add: js_pow_powi)
qed

theorem sustainable_income_witness:
  "1 + inflationRate plain_inputs / 100 \<noteq> 0
   \<and> finalAmount (calculateScenario plain_inputs ''Base Case'' ''#0891b2'' noModifications) = 3400
   \<and> monthlyIncome (calculateScenario plain_inputs ''Base Case'' ''#0891b2'' noModifications) =
       Finite (544 / 75)"
proof -
  have m: "plain_inputs = spread plain_inputs noModifications"
    by (simp add: spread_def noModifications_def)
  have f: "finalAmount (calculateScenario plain_inputs ''Base Case'' ''#0891b2'' noModifications) = 3400"
    unfolding final_amount [OF m] by (simp add: plain_inputs_def eval_nat_numeral)
  have b: "1 + inflationRate plain_inputs / 100 = 5 / 4"
    by (simp add: plain_inputs_def)
  have Y: "retirementAge plain_inputs - currentAge plain_inputs = 2"
    by (simp add: plain_inputs_def)
  from sustainable_income [OF m, of "''Base Case''" "''#0891b2''"] show ?thesis
    unfolding f b Y by (simp add: js_pow_def power2_eq_square)
qed

text \<open>
  C8. The years of income are the program's quotient of the final amount by
  \<open>retirementExpenses * 12\<close>. With expenses other than zero that is the real quotient. With
  expenses of zero nothing intervenes: the quotient is \<^verbatim>\<open>Infinity\<close>, \<^verbatim>\<open>-Infinity\<close> or
  \<^verbatim>\<open>NaN\<close> by the sign of the final amount, and that is the field of the result. The
  inflation rate plays no part: overriding it leaves the figure as it is.
\<close>

theorem income_coverage:
  assumes "m = spread inputs modifications"
  shows "yearsOfIncome (calculateScenario inputs nm col modifications) =
           js_div (finalAmount (calculateScenario inputs nm col modifications))
             (Finite (retirementExpenses m * 12))
       \<and> (retirementExpenses m \<noteq> 0 \<longrightarrow>
            yearsOfIncome (calculateScenario inputs nm col modifications) =
              Finite (finalAmount (calculateScenario inputs nm col modifications)
                        / (retirementExpenses m * 12)))
       \<and> (retirementExpenses m = 0 \<longrightarrow>
            yearsOfIncome (calculateScenario inputs nm col modifications) =
              (if finalAmount (calculateScenario inputs nm col modifications) = 0 then NaN
               else if 0 < finalAmount (calculateScenario inputs nm col modifications) then PosInfinity
               else NegInfinity))
       \<and> (\<forall>i. yearsOfIncome (calculateScenario inputs nm col
                                 (modifications \<lparr> modInflationRate := Some i \<rparr>)) =
                yearsOfIncome (calculateScenario inputs nm col modifications))"
proof -
  have js: "yearsOfIncome (calculateScenario inputs nm col modifications) =
           js_div (finalAmount (calculateScenario inputs nm col modifications))
             (Finite (retirementExpenses m * 12))"
    by (simp add: calculateScenario_closed [OF assms])
  have indep: "yearsOfIncome (calculateScenario inputs nm col (modifications \<lparr> modInflationRate := Some i \<rparr>)) =
               yearsOfIncome (calculateScenario inputs nm col modifications)" for i
    by (simp add: calculateScenario_closed [OF refl] spread_def)
  show ?thesis using js indep by simp
qed

theorem income_coverage_witness:
  "retirementExpenses seed_inputs \<noteq> 0
   \<and> yearsOfIncome (calculateScenario seed_inputs ''Base Case'' ''#0891b2'' noModifications) =
       Finite (finalAmount (calculateScenario seed_inputs ''Base Case'' ''#0891b2'' noModifications) / 1200)
   \<and> retirementExpenses plain_inputs = 0
   \<and> finalAmount (calculateScenario plain_inputs ''Base Case'' ''#0891b2'' noModifications) = 3400
   \<and> yearsOfIncome (calculateScenario plain_inputs ''Base Case'' ''#0891b2'' noModifications) = PosInfinity"
proof -
  have m1: "seed_inputs = spread seed_inputs noModifications"
    by (simp add: spread_def noModifications_def)
  have m2: "plain_inputs = spread plain_inputs noModifications"
    by (simp add: spread_def noModifications_def)
  have f: "finalAmount (calculateScenario plain_inputs ''Base Case'' ''#0891b2'' noModifications) = 3400"
    unfolding final_amount [OF m2] by (simp add: plain_inputs_def eval_nat_numeral)
  have e1: "retirementExpenses seed_inputs = 100"
    by (simp add: seed_inputs_def)
  have e2: "retirementExpenses plain_inputs = 0"
    by (simp add: plain_inputs_def)
  from income_coverage [OF m1, of "''Base Case''" "''#0891b2''"]
       income_coverage [OF m2, of "''Base Case''" "''#0891b2''"]
  show ?thesis
    unfolding f e1 e2 by simp
qed

section \<open>The scenario set\<close>

text \<open>
  C3. \<open>buildScenarios\<close> returns five results, named in the fixed order, the first of which
  is \<open>calculateScenario\<close> on the base inputs with no modification, under the name
  \<open>Base Case\<close>. Every entry is \<open>calculateScenario\<close> on the same base inputs with at most one
  field replaced: no entry sees the override of another.
\<close>

theorem buildScenarios_catalogue:
  "length (buildScenarios base) = 5
   \<and> map name (buildScenarios base) =
       [''Base Case'', ''Inflation Spike (5%)'', ''Early Retirement (60)'',
        ''Market Downturn (4% return)'', ''Optimistic (10% return)'']
   \<and> buildScenarios base ! 0 = calculateScenario base ''Base Case'' ''#0891b2'' noModifications
   \<and> spread base noModifications = base
   \<and> buildScenarios base ! 1 =
       calculateScenario (base \<lparr> inflationRate := 5 \<rparr>) ''Inflation Spike (5%)'' ''#dc2626'' noModifications
   \<and> buildScenarios base ! 2 =
       calculateScenario (base \<lparr> retirementAge := 60 \<rparr>) ''Early Retirement (60)'' ''#7c3aed'' noModifications
   \<and> buildScenarios base ! 3 =
       calculateScenario (base \<lparr> expectedReturn := 4 \<rparr>) ''Market Downturn (4% return)'' ''#ea580c'' noModifications
   \<and> buildScenarios base ! 4 =
       calculateScenario (base \<lparr> expectedReturn := 10 \<rparr>) ''Optimistic (10% return)'' ''#059669'' noModifications"
proof -
  have nm: "name (calculateScenario i n c ms) = n" for i n c ms
    by (simp add: calculateScenario_closed [OF refl])
  have sp: "spread base noModifications = base"
    by (simp add: spread_def noModifications_def)
  have ov: "calculateScenario base n c ms = calculateScenario base' n c noModifications"
    if "spread base ms = spread base' noModifications" for n c ms base'
    by (simp add: calculateScenario_def that)
  have len: "length (buildScenarios base) = 5"
    by (simp add: buildScenarios_def)
  have names: "map name (buildScenarios base) =
       [''Base Case'', ''Inflation Spike (5%)'', ''Early Retirement (60)'',
        ''Market Downturn (4% return)'', ''Optimistic (10% return)'']"
    unfolding buildScenarios_def Let_def list.map nm ..
  have e0: "buildScenarios base ! 0 = calculateScenario base ''Base Case'' ''#0891b2'' noModifications"
    by (simp add: buildScenarios_def)
  have e1: "buildScenarios base ! 1 =
       calculateScenario (base \<lparr> inflationRate := 5 \<rparr>) ''Inflation Spike (5%)'' ''#dc2626'' noModifications"
  proof -
    have "buildScenarios base ! 1 = calculateScenario base ''Inflation Spike (5%)'' ''#dc2626''
            (noModifications \<lparr> modInflationRate := Some 5 \<rparr>)"
      by (simp add: buildScenarios_def)
    also have "\<dots> = calculateScenario (base \<lparr> inflationRate := 5 \<rparr>) ''Inflation Spike (5%)'' ''#dc2626'' noModifications"
      by (rule ov) (simp add: spread_def noModifications_def)
    finally show ?thesis .
  qed
  have e2: "buildScenarios base ! 2 =
       calculateScenario (base \<lparr> retirementAge := 60 \<rparr>) ''Early Retirement (60)'' ''#7c3aed'' noModifications"
  proof -
    have "buildScenarios base ! 2 = calculateScenario base ''Early Retirement (60)'' ''#7c3aed''
            (noModifications \<lparr> modRetirementAge := Some 60 \<rparr>)"
      by (simp add: buildScenarios_def)
    also have "\<dots> = calculateScenario (base \<lparr> retirementAge := 60 \<rparr>) ''Early Retirement (60)'' ''#7c3aed'' noModifications"
      by (rule ov) (simp add: spread_def noModifications_def)
    finally show ?thesis .
  qed
  have e3: "buildScenarios base ! 3 =
       calculateScenario (base \<lparr> expectedReturn := 4 \<rparr>) ''Market Downturn (4% return)'' ''#ea580c'' noModifications"
  proof -
    have "buildScenarios base ! 3 = calculateScenario base ''Market Downturn (4% return)'' ''#ea580c''
            (noModifications \<lparr> modExpectedReturn := Some 4 \<rparr>)"
      by (simp add: buildScenarios_def)
    also have "\<dots> = calculateScenario (base \<lparr> expectedReturn := 4 \<rparr>) ''Market Downturn (4% return)'' ''#ea580c'' noModifications"
      by (rule ov) (simp add: spread_def noModifications_def)
    finally show ?thesis .
  qed
  have e4: "buildScenarios base ! 4 =
       calculateScenario (base \<lparr> expectedReturn := 10 \<rparr>) ''Optimistic (10% return)'' ''#059669'' noModifications"
  proof -
    have "buildScenarios base ! 4 = calculateScenario base ''Optimistic (10% return)'' ''#059669''
            (noModifications \<lparr> modExpectedReturn := Some 10 \<rparr>)"
      by (simp add: buildScenarios_def)
    also have "\<dots> = calculateScenario (base \<lparr> expectedReturn := 10 \<rparr>) ''Optimistic (10% return)'' ''#059669'' noModifications"
      by (rule ov) (simp add: spread_def noModifications_def)
    finally show ?thesis .
  qed
  from len names e0 sp e1 e2 e3 e4 show ?thesis by (intro conjI)
qed

section \<open>Steps that do not shrink the balance\<close>

lemma monthly_steps_grow:
  "0 \<le> a \<Longrightarrow> 0 \<le> r \<Longrightarrow> 0 \<le> c \<Longrightarrow> a \<le> monthly_steps n r c a"
proof (induction n arbitrary: a)
  case 0
  then show ?case by simp
next
  case (Suc n)
  have "0 \<le> a * r" using Suc.prems by simp
  then have le: "a \<le> a * (1 + r) + c" using Suc.prems by (simp add: algebra_simps)
  with Suc.prems have "0 \<le> a * (1 + r) + c" by linarith
  from Suc.IH [OF this Suc.prems(2,3)] le show ?case by simp
qed

lemma monthly_steps_mono:
  assumes "0 \<le> a" "0 \<le> r" "0 \<le> c" "n \<le> n'"
  shows "monthly_steps n r c a \<le> monthly_steps n' r c a"
proof -
  from assms(4) obtain j where n': "n' = n + j" by (auto simp: le_iff_add)
  have "0 \<le> monthly_steps n r c a"
    using monthly_steps_grow [OF assms(1-3), of n] assms(1) by linarith
  from monthly_steps_grow [OF this assms(2,3), of j] show ?thesis
    by (simp add: n' monthly_steps_add)
qed

text \<open>
  C9. When the starting savings, the monthly contribution and the expected return are not
  negative, the amounts of consecutive trajectory points never decrease. The amounts are
  exact reals here: the statement says nothing of rounding.
\<close>

theorem amounts_nondecreasing:
  assumes "m = spread inputs modifications"
    and "0 \<le> currentSavings m" and "0 \<le> monthlyContribution m" and "0 \<le> expectedReturn m"
  shows "(\<forall>k. k + 1 < length (data (calculateScenario inputs nm col modifications)) \<longrightarrow>
            amount (data (calculateScenario inputs nm col modifications) ! k)
              \<le> amount (data (calculateScenario inputs nm col modifications) ! (k + 1)))
       \<and> sorted (map amount (data (calculateScenario inputs nm col modifications)))"
proof -
  let ?d = "data (calculateScenario inputs nm col modifications)"
  let ?Y = "retirementAge m - currentAge m"
  have r: "0 \<le> expectedReturn m / 100 / 12" using assms(4) by simp
  have step: "amount (?d ! k) \<le> amount (?d ! (k + 1))" if "k + 1 < length ?d" for k
  proof -
    from that have k: "k < nat (?Y + 1)" "k + 1 < nat (?Y + 1)"
      by (simp_all add: data_length [OF assms(1)])
    have "12 * (min (k + 1) (nat ?Y) - 0) \<le> 12 * (min (k + 1 + 1) (nat ?Y) - 0)" by simp
    from monthly_steps_mono [OF assms(2) r assms(3) this] show ?thesis
      by (simp only: data_nth [OF assms(1) k(1)] data_nth [OF assms(1) k(2)] recorded_def
            YearPoint.simps)
  qed
  then have "sorted (map amount ?d)"
    by (simp add: sorted_iff_nth_Suc)
  with step show ?thesis by blast
qed

theorem amounts_nondecreasing_witness:
  "0 \<le> currentSavings growing_inputs \<and> 0 \<le> monthlyContribution growing_inputs
   \<and> 0 \<le> expectedReturn growing_inputs
   \<and> length (data (calculateScenario growing_inputs ''Base Case'' ''#0891b2'' noModifications)) = 3
   \<and> amount (data (calculateScenario growing_inputs ''Base Case'' ''#0891b2'' noModifications) ! 0)
       \<le> amount (data (calculateScenario growing_inputs ''Base Case'' ''#0891b2'' noModifications) ! 1)
   \<and> amount (data (calculateScenario growing_inputs ''Base Case'' ''#0891b2'' noModifications) ! 1)
       \<le> amount (data (calculateScenario growing_inputs ''Base Case'' ''#0891b2'' noModifications) ! 2)"
proof -
  have m: "growing_inputs = spread growing_inputs noModifications"
    by (simp add: spread_def noModifications_def)
  have h: "0 \<le> currentSavings growing_inputs" "0 \<le> monthlyContribution growing_inputs"
    "0 \<le> expectedReturn growing_inputs"
    by (simp_all add: growing_inputs_def)
  have len: "length (data (calculateScenario growing_inputs ''Base Case'' ''#0891b2'' noModifications)) = 3"
    unfolding data_length [OF m] by (simp add: growing_inputs_def)
  note t = amounts_nondecreasing [OF m h, of "''Base Case''" "''#0891b2''", THEN conjunct1, rule_format]
  have "0 + 1 < length (data (calculateScenario growing_inputs ''Base Case'' ''#0891b2'' noModifications))"
    "1 + 1 < length (data (calculateScenario growing_inputs ''Base Case'' ''#0891b2'' noModifications))"
    using len by simp_all
  from t [OF this(1)] t [OF this(2)] h len show ?thesis by (simp add: numeral_2_eq_2)
qed


section \<open>Balances that the steps leave as they are\<close>

text \<open>
  With no contribution, a step multiplies the balance by \<open>1 + r\<close>: it keeps any balance
  when \<open>r = 0\<close>, and keeps a balance of zero at any \<open>r\<close>. The products and sums involved,
  \<open>a * 1 + 0\<close> and \<open>0 * (1 + r) + 0\<close>, are ones that rounding leaves alone.
\<close>

lemma monthly_steps_no_return:
  "monthly_steps n 0 0 a = a"
  by (induction n arbitrary: a) simp_all

lemma monthly_steps_no_savings:
  "monthly_steps n r 0 0 = 0"
  by (induction n) simp_all

text \<open>
  C10, as stated: with a horizon of at least a year, no trajectory point carries the
  starting savings unless contribution and expected return are both zero. Savings of zero
  with no contribution stay zero at any rate of return: here at 7%.
\<close>

theorem starting_savings_counterexample:
  "1 \<le> retirementAge (spread idle_inputs noModifications) - currentAge (spread idle_inputs noModifications)
   \<and> amount (data (calculateScenario idle_inputs ''Base Case'' ''#0891b2'' noModifications) ! 0) =
       currentSavings (spread idle_inputs noModifications)
   \<and> expectedReturn (spread idle_inputs noModifications) \<noteq> 0"
proof -
  have m: "idle_inputs = spread idle_inputs noModifications"
    by (simp add: spread_def noModifications_def)
  have "(0::nat) < nat (retirementAge idle_inputs - currentAge idle_inputs + 1)"
    by (simp add: idle_inputs_def)
  from data_nth [OF m this, of "''Base Case''" "''#0891b2''"] show ?thesis
    unfolding m [symmetric]
    by (simp add: recorded_def idle_inputs_def eval_nat_numeral)
qed

text \<open>
  C10, amended: with a horizon of at least a year, the first point, labelled
  \<open>currentAge\<close>, carries the balance after the twelve monthly steps of the first year,
  not the starting savings as such. Every point of the trajectory does carry the starting
  savings when there is no contribution and either no return or no savings: the second
  case is the one the claim leaves out. Of other inputs the statement says nothing.
\<close>

theorem first_point_after_a_year:
  assumes "m = spread inputs modifications"
    and "1 \<le> retirementAge m - currentAge m"
  shows "year (data (calculateScenario inputs nm col modifications) ! 0) = currentAge m
       \<and> amount (data (calculateScenario inputs nm col modifications) ! 0) =
           monthly_steps 12 (expectedReturn m / 100 / 12) (monthlyContribution m) (currentSavings m)
       \<and> (monthlyContribution m = 0 \<and> (expectedReturn m = 0 \<or> currentSavings m = 0) \<longrightarrow>
           (\<forall>k < length (data (calculateScenario inputs nm col modifications)).
              amount (data (calculateScenario inputs nm col modifications) ! k) = currentSavings m))"
proof -
  let ?d = "data (calculateScenario inputs nm col modifications)"
  let ?Y = "retirementAge m - currentAge m"
  let ?r = "expectedReturn m / 100 / 12"
  let ?c = "monthlyContribution m"
  let ?s = "currentSavings m"
  have pt: "amount (?d ! k) = monthly_steps (12 * min (k + 1) (nat ?Y)) ?r ?c ?s" if "k < length ?d" for k
  proof -
    from that have "k < nat (?Y + 1)" by (simp add: data_length [OF assms(1)])
    then show ?thesis by (simp add: data_nth [OF assms(1)] recorded_def)
  qed
  have "0 < nat (?Y + 1)" using assms(2) by simp
  then have y0: "year (?d ! 0) = currentAge m"
    by (simp add: data_nth [OF assms(1)] recorded_def)
  have "0 < length ?d" using assms(2) by (simp add: data_length [OF assms(1)])
  from pt [OF this] assms(2) have a0: "amount (?d ! 0) = monthly_steps 12 ?r ?c ?s"
    by simp
  have idle: "amount (?d ! k) = ?s"
    if k: "k < length ?d" and z: "?c = 0 \<and> (expectedReturn m = 0 \<or> ?s = 0)" for k
  proof (cases "expectedReturn m = 0")
    case True
    with z show ?thesis unfolding pt [OF k] by (simp add: monthly_steps_no_return)
  next
    case False
    with z have "?c = 0" "?s = 0" by simp_all
    then show ?thesis unfolding pt [OF k] by (simp add: monthly_steps_no_savings)
  qed
  from y0 a0 idle show ?thesis by blast
qed

theorem first_point_after_a_year_witness:
  "1 \<le> retirementAge seed_inputs - currentAge seed_inputs
   \<and> year (data (calculateScenario seed_inputs ''Base Case'' ''#0891b2'' noModifications) ! 0) = 30
   \<and> amount (data (calculateScenario seed_inputs ''Base Case'' ''#0891b2'' noModifications) ! 0) =
       1126825030131969720661201 / 1000000000000000000000
   \<and> 1 \<le> retirementAge idle_inputs - currentAge idle_inputs
   \<and> monthlyContribution idle_inputs = 0 \<and> currentSavings idle_inputs = 0
   \<and> length (data (calculateScenario idle_inputs ''Base Case'' ''#0891b2'' noModifications)) = 2
   \<and> amount (data (calculateScenario idle_inputs ''Base Case'' ''#0891b2'' noModifications) ! 0) = 0
   \<and> amount (data (calculateScenario idle_inputs ''Base Case'' ''#0891b2'' noModifications) ! 1) = 0"
proof -
  have m1: "seed_inputs = spread seed_inputs noModifications"
    by (simp add: spread_def noModifications_def)
  have h1: "1 \<le> retirementAge seed_inputs - currentAge seed_inputs"
    by (simp add: seed_inputs_def)
  have m2: "idle_inputs = spread idle_inputs noModifications"
    by (simp add: spread_def noModifications_def)
  have h2: "1 \<le> retirementAge idle_inputs - currentAge idle_inputs"
    by (simp add: idle_inputs_def)
  have z: "monthlyContribution idle_inputs = 0
           \<and> (expectedReturn idle_inputs = 0 \<or> currentSavings idle_inputs = 0)"
    by (simp add: idle_inputs_def)
  have len: "length (data (calculateScenario idle_inputs ''Base Case'' ''#0891b2'' noModifications)) = 2"
    unfolding data_length [OF m2] by (simp add: idle_inputs_def)
  have k: "0 < length (data (calculateScenario idle_inputs ''Base Case'' ''#0891b2'' noModifications))"
    "1 < length (data (calculateScenario idle_inputs ''Base Case'' ''#0891b2'' noModifications))"
    using len by simp_all
  have v: "monthly_steps 12 (1 / 100) 0 1000 = 1126825030131969720661201 / 1000000000000000000000"
    by (simp add: eval_nat_numeral)
  note t1 = first_point_after_a_year [OF m1 h1, of "''Base Case''" "''#0891b2''"]
  note t2 = first_point_after_a_year [OF m2 h2, of "''Base Case''" "''#0891b2''"]
  note all = t2 [THEN conjunct2, THEN conjunct2, rule_format, OF z]
  from t1 [THEN conjunct1] t1 [THEN conjunct2, THEN conjunct1] all [OF k(1)] all [OF k(2)] h1 h2 len v
  show ?thesis
    by (simp add: seed_inputs_def idle_inputs_def)
qed

end
